theory Spec2Isabelle
  imports Complex_Main "HOL-Library.Sublist" "HOL-Library.Code_Target_Nat"
begin

section \<open>Flashcard generation: prompt building, dispatch and response parsing\<close>

text \<open>
  A shallow embedding of the flashcard-generation core of the plugin: the media helpers
  of \<^verbatim>\<open>image-utils.ts\<close> and the prompt builder, the two generation entrypoints and
  the per-choice response parser of the generation module.

  JavaScript strings are modelled by \<^typ>\<open>string\<close>: a \<^typ>\<open>char\<close> stands for a code
  unit in the range 0 to 255. Counts (\<^verbatim>\<open>num\<close>, \<^verbatim>\<open>num_q\<close>, token budgets) are
  JavaScript numbers holding integers and are modelled by \<^typ>\<open>int\<close>; a product of
  counts is the exact product, as the product of the doubles is while it stays below
  \<open>2\<^sup>5\<^sup>3\<close>. Messages written to the logger do not influence any returned value and
  are left out.
\<close>

subsection \<open>Strings\<close>

text \<open>
  White space as \<^verbatim>\<open>String.prototype.trim\<close> and the regular-expression class
  \<^verbatim>\<open>\s\<close> read it, among the code units 0 to 255: tab, line feed, vertical tab, form
  feed, carriage return, space and no-break space.
\<close>

definition is_space :: "char \<Rightarrow> bool" where
  "is_space c = (c \<in> set [CHR 0x09, CHR 0x0A, CHR 0x0B, CHR 0x0C, CHR 0x0D, CHR 0x20, CHR 0xA0])"

definition trim :: "string \<Rightarrow> string" where
  "trim s = rev (dropWhile is_space (rev (dropWhile is_space s)))"

text \<open>
  \<^verbatim>\<open>String.prototype.toLowerCase\<close> on the code units 0 to 255: the letters A to Z and
  the capital letters of Latin-1 (C0 to DE, without the multiplication sign D7) move up
  by 32; every other code unit stays.
\<close>

definition toLowerCase_char :: "char \<Rightarrow> char" where
  "toLowerCase_char c =
     (let n = (of_char c :: nat)
      in if (65 \<le> n \<and> n \<le> 90) \<or> (192 \<le> n \<and> n \<le> 222 \<and> n \<noteq> 215)
         then char_of (n + 32) else c)"

definition toLowerCase :: "string \<Rightarrow> string" where
  "toLowerCase s = map toLowerCase_char s"

text \<open>
  \<^verbatim>\<open>s.split(sep).pop()\<close> for a separator of one character: the part of \<open>s\<close> after
  the last separator, and \<open>s\<close> itself when it has none. The array that \<^verbatim>\<open>split\<close>
  returns is never empty, so \<^verbatim>\<open>pop\<close> always yields a string.
\<close>

definition split_pop :: "char \<Rightarrow> string \<Rightarrow> string" where
  "split_pop sep s = rev (takeWhile (\<lambda>c. c \<noteq> sep) (rev s))"

text \<open>
  A number that holds an integer, as a template literal prints it (in decimal; the
  exponent notation that JavaScript switches to from \<open>10\<^sup>2\<^sup>1\<close> on is outside the
  range of counts).
\<close>

definition digit_char :: "nat \<Rightarrow> char" where
  "digit_char d = ''0123456789'' ! d"

fun decimal :: "nat \<Rightarrow> string" where
  "decimal n = (if n < 10 then [digit_char n] else decimal (n div 10) @ [digit_char (n mod 10)])"

declare decimal.simps [simp del]

definition Number_toString :: "int \<Rightarrow> string" where
  "Number_toString i = (if i < 0 then CHR ''-'' # decimal (nat (- i)) else decimal (nat i))"

subsection \<open>JSON values and \<^verbatim>\<open>JSON.parse\<close>\<close>

text \<open>
  The values that \<^verbatim>\<open>JSON.parse\<close> builds. A string value is a list of code units
  (an escape \<^verbatim>\<open>\uXXXX\<close> can denote any of them); a number is kept as the integer
  \<open>m\<close> and the decimal exponent \<open>e\<close> of its literal, standing for \<open>m \<times> 10\<^sup>e\<close>; an
  object keeps its members in the order of the text.
\<close>

type_synonym code_units = "nat list"

definition units :: "string \<Rightarrow> code_units" where
  "units s = map of_char s"

datatype json =
    JNull
  | JBool bool
  | JNumber int int
  | JString code_units
  | JArray "json list"
  | JObject "(code_units \<times> json) list"

datatype token =
    LBrace | RBrace | LBracket | RBracket | Colon | Comma
  | TString code_units | TNumber int int | TTrue | TFalse | TNull

definition backslash :: char where
  "backslash = CHR 0x5C"

definition is_digit :: "char \<Rightarrow> bool" where
  "is_digit c = (c \<in> set ''0123456789'')"

definition hex_value :: "char \<Rightarrow> nat option" where
  "hex_value c =
     map_of (zip ''0123456789abcdef'' [0..<16] @ zip ''ABCDEF'' [10..<16]) c"

definition escape_value :: "char \<Rightarrow> nat option" where
  \<open>escape_value c =
     map_of [(CHR ''"'', 34), (backslash, 92), (CHR ''/'', 47), (CHR ''b'', 8),
             (CHR ''f'', 12), (CHR ''n'', 10), (CHR ''r'', 13), (CHR ''t'', 9)] c\<close>

text \<open>
  The four hexadecimal digits of an escape \<^verbatim>\<open>\uXXXX\<close>, as the code unit they denote.
\<close>

definition hex4 :: "string \<Rightarrow> nat option" where
  "hex4 ds =
     (if length ds = 4 \<and> list_all (\<lambda>h. hex_value h \<noteq> None) ds
      then Some (foldl (\<lambda>n h. 16 * n + the (hex_value h)) 0 ds)
      else None)"

text \<open>
  The body of a string literal, after its opening quote: up to the closing quote, with
  the escapes decoded. A control character (below 0x20) inside a literal, an unknown
  escape and a missing closing quote are errors.
\<close>

fun lex_string :: "string \<Rightarrow> code_units \<Rightarrow> (code_units \<times> string) option" where
  "lex_string [] acc = None"
| "lex_string [c] acc = (if c = CHR 0x22 then Some (acc, []) else None)"
| "lex_string (c # e # cs) acc =
     (if c = CHR 0x22 then Some (acc, e # cs)
      else if c = backslash then
        (if e = CHR ''u'' then
           (case hex4 (take 4 cs) of
              Some u \<Rightarrow> lex_string (drop 4 cs) (acc @ [u])
            | None \<Rightarrow> None)
         else
           (case escape_value e of
              Some u \<Rightarrow> lex_string cs (acc @ [u])
            | None \<Rightarrow> None))
      else if (of_char c :: nat) < 32 then None
      else lex_string (e # cs) (acc @ [of_char c]))"

lemma lex_string_shorter:
  "lex_string s acc = Some (u, rest) \<Longrightarrow> length rest < length s"
proof (induction s acc rule: lex_string.induct)
  case (1 acc)
  then show ?case by simp
next
  case (2 c acc)
  then show ?case by (simp split: if_splits)
next
  case (3 c e cs acc)
  show ?case
  proof (cases "c = CHR 0x22")
    case True
    with "3.prems" show ?thesis by simp
  next
    case quote: False
    show ?thesis
    proof (cases "c = backslash")
      case bs: True
      show ?thesis
      proof (cases "e = CHR ''u''")
        case True
        with "3.prems" quote bs obtain n where n: "hex4 (take 4 cs) = Some n"
          and r: "lex_string (drop 4 cs) (acc @ [n]) = Some (u, rest)"
          by (auto split: option.splits)
        from "3.IH"(1)[OF quote bs True n r] show ?thesis by simp
      next
        case False
        with "3.prems" quote bs obtain n where n: "escape_value e = Some n"
          and r: "lex_string cs (acc @ [n]) = Some (u, rest)"
          by (auto split: option.splits)
        from "3.IH"(2)[OF quote bs False n r] show ?thesis by simp
      qed
    next
      case nbs: False
      with "3.prems" quote have c: "\<not> (of_char c :: nat) < 32"
        and r: "lex_string (e # cs) (acc @ [of_char c]) = Some (u, rest)"
        by (auto split: if_splits)
      from "3.IH"(3)[OF quote nbs c r] show ?thesis by simp
    qed
  qed
qed

text \<open>
  A number literal: \<^verbatim>\<open>-?(0|[1-9][0-9]*)(\.[0-9]+)?([eE][+-]?[0-9]+)?\<close>.
\<close>

definition digits_value :: "string \<Rightarrow> nat" where
  "digits_value ds = foldl (\<lambda>n d. 10 * n + (of_char d - 48)) 0 ds"

definition lex_sign :: "string \<Rightarrow> bool \<times> string" where
  "lex_sign s = (if take 1 s = ''-'' then (True, drop 1 s) else (False, s))"

definition lex_int :: "string \<Rightarrow> (string \<times> string) option" where
  "lex_int s =
     (let ip = takeWhile is_digit s
      in if ip = [] \<or> (1 < length ip \<and> take 1 ip = ''0'') then None
         else Some (ip, dropWhile is_digit s))"

definition lex_frac :: "string \<Rightarrow> (string \<times> string) option" where
  "lex_frac s =
     (if take 1 s = ''.'' then
        (let fd = takeWhile is_digit (drop 1 s)
         in if fd = [] then None else Some (fd, dropWhile is_digit (drop 1 s)))
      else Some ([], s))"

definition lex_exp :: "string \<Rightarrow> (int \<times> string) option" where
  "lex_exp s =
     (if take 1 s = ''e'' \<or> take 1 s = ''E'' then
        (let (neg, s') = (if take 1 (drop 1 s) = ''-'' then (True, drop 2 s)
                          else if take 1 (drop 1 s) = ''+'' then (False, drop 2 s)
                          else (False, drop 1 s));
             ed = takeWhile is_digit s'
         in if ed = [] then None
            else Some (if neg then - int (digits_value ed) else int (digits_value ed),
                       dropWhile is_digit s'))
      else Some (0, s))"

definition lex_number :: "string \<Rightarrow> (int \<times> int \<times> string) option" where
  "lex_number s =
     (let (neg, s1) = lex_sign s
      in case lex_int s1 of
           None \<Rightarrow> None
         | Some (ip, s2) \<Rightarrow>
             (case lex_frac s2 of
                None \<Rightarrow> None
              | Some (fd, s3) \<Rightarrow>
                  (case lex_exp s3 of
                     None \<Rightarrow> None
                   | Some (ex, s4) \<Rightarrow>
                       Some (if neg then - int (digits_value (ip @ fd))
                             else int (digits_value (ip @ fd)),
                             ex - int (length fd), s4))))"

lemma lex_sign_length: "lex_sign s = (neg, r) \<Longrightarrow> length r \<le> length s"
  by (auto simp: lex_sign_def split: if_splits)

lemma lex_int_shorter:
  assumes "lex_int s = Some (ip, r)"
  shows "length r < length s"
proof -
  have ne: "takeWhile is_digit s \<noteq> []" and r: "r = dropWhile is_digit s"
    using assms by (auto simp: lex_int_def Let_def split: if_splits)
  have e: "length (takeWhile is_digit s) + length (dropWhile is_digit s) = length s"
    by (metis length_append takeWhile_dropWhile_id)
  have p: "0 < length (takeWhile is_digit s)" using ne by simp
  show ?thesis unfolding r using e p by linarith
qed

lemma lex_frac_length: "lex_frac s = Some (fd, r) \<Longrightarrow> length r \<le> length s"
  using length_dropWhile_le[of is_digit "drop 1 s"]
  by (auto simp: lex_frac_def Let_def split: if_splits)

lemma lex_exp_length: "lex_exp s = Some (ex, r) \<Longrightarrow> length r \<le> length s"
  using length_dropWhile_le[of is_digit "drop 1 s"] length_dropWhile_le[of is_digit "drop 2 s"]
  by (auto simp: lex_exp_def Let_def split: if_splits)

lemma lex_number_shorter:
  assumes "lex_number s = Some (m, e, rest)"
  shows "length rest < length s"
proof -
  obtain neg s1 where sg: "lex_sign s = (neg, s1)" by (cases "lex_sign s")
  from assms sg obtain ip s2 where i: "lex_int s1 = Some (ip, s2)"
    by (auto simp: lex_number_def split: option.splits)
  from assms sg i obtain fd s3 where f: "lex_frac s2 = Some (fd, s3)"
    by (auto simp: lex_number_def split: option.splits)
  from assms sg i f obtain ex where x: "lex_exp s3 = Some (ex, rest)"
    by (auto simp: lex_number_def split: option.splits)
  show ?thesis
    using lex_sign_length[OF sg] lex_int_shorter[OF i] lex_frac_length[OF f] lex_exp_length[OF x]
    by linarith
qed

text \<open>
  The tokens of a JSON text. White space between tokens is tab, line feed, carriage
  return and space; any other character that starts no token is an error.
\<close>

definition json_space :: "char \<Rightarrow> bool" where
  "json_space c = (c \<in> set [CHR 0x09, CHR 0x0A, CHR 0x0D, CHR 0x20])"

function tokenize :: "string \<Rightarrow> token list option" where
  "tokenize [] = Some []"
| "tokenize (c # cs) =
     (if json_space c then tokenize cs
      else if c = CHR ''{'' then map_option (Cons LBrace) (tokenize cs)
      else if c = CHR ''}'' then map_option (Cons RBrace) (tokenize cs)
      else if c = CHR ''['' then map_option (Cons LBracket) (tokenize cs)
      else if c = CHR '']'' then map_option (Cons RBracket) (tokenize cs)
      else if c = CHR '':'' then map_option (Cons Colon) (tokenize cs)
      else if c = CHR '','' then map_option (Cons Comma) (tokenize cs)
      else if c = CHR 0x22 then
        (case lex_string cs [] of
           None \<Rightarrow> None
         | Some (u, rest) \<Rightarrow> map_option (Cons (TString u)) (tokenize rest))
      else if c = CHR ''-'' \<or> is_digit c then
        (case lex_number (c # cs) of
           None \<Rightarrow> None
         | Some (m, e, rest) \<Rightarrow> map_option (Cons (TNumber m e)) (tokenize rest))
      else if prefix ''true'' (c # cs) then map_option (Cons TTrue) (tokenize (drop 3 cs))
      else if prefix ''false'' (c # cs) then map_option (Cons TFalse) (tokenize (drop 4 cs))
      else if prefix ''null'' (c # cs) then map_option (Cons TNull) (tokenize (drop 3 cs))
      else None)"
  by pat_completeness auto
termination
proof (relation "measure length", goal_cases)
  case (9 c cs x2 u rest)
  then show ?case using lex_string_shorter[of cs "[]" u rest] by simp
next
  case (10 c cs x2 m x2a e rest)
  then show ?case using lex_number_shorter[of "c # cs" m e rest] by simp
qed simp_all

declare tokenize.simps [simp del]

text \<open>
  The grammar over the tokens, as a machine with a stack of the arrays and objects that
  are still open. \<open>InObject ms (Some k)\<close> is an object that has read the key \<open>k\<close> and
  waits for its value.
\<close>

datatype frame =
    InArray "json list"
  | InObject "(code_units \<times> json) list" "code_units option"

datatype expect =
    Value | ValueOrClose | KeyOrClose | Key | AfterKey | CommaOrClose | Finished json

fun finish_value :: "json \<Rightarrow> frame list \<Rightarrow> (expect \<times> frame list) option" where
  "finish_value v [] = Some (Finished v, [])"
| "finish_value v (InArray es # st) = Some (CommaOrClose, InArray (es @ [v]) # st)"
| "finish_value v (InObject ms (Some k) # st) =
     Some (CommaOrClose, InObject (ms @ [(k, v)]) None # st)"
| "finish_value v (InObject ms None # st) = None"

fun scalar :: "token \<Rightarrow> json option" where
  "scalar (TString u) = Some (JString u)"
| "scalar (TNumber m e) = Some (JNumber m e)"
| "scalar TTrue = Some (JBool True)"
| "scalar TFalse = Some (JBool False)"
| "scalar TNull = Some JNull"
| "scalar _ = None"

fun close_array :: "frame list \<Rightarrow> (expect \<times> frame list) option" where
  "close_array (InArray es # st) = finish_value (JArray es) st"
| "close_array _ = None"

fun close_object :: "frame list \<Rightarrow> (expect \<times> frame list) option" where
  "close_object (InObject ms None # st) = finish_value (JObject ms) st"
| "close_object _ = None"

fun open_value :: "token \<Rightarrow> frame list \<Rightarrow> (expect \<times> frame list) option" where
  "open_value LBrace st = Some (KeyOrClose, InObject [] None # st)"
| "open_value LBracket st = Some (ValueOrClose, InArray [] # st)"
| "open_value t st = (case scalar t of Some v \<Rightarrow> finish_value v st | None \<Rightarrow> None)"

fun read_key :: "token \<Rightarrow> frame list \<Rightarrow> (expect \<times> frame list) option" where
  "read_key (TString k) (InObject ms None # st) = Some (AfterKey, InObject ms (Some k) # st)"
| "read_key _ _ = None"

fun step :: "token \<Rightarrow> expect \<times> frame list \<Rightarrow> (expect \<times> frame list) option" where
  "step t (Value, st) = open_value t st"
| "step t (ValueOrClose, st) = (if t = RBracket then close_array st else open_value t st)"
| "step t (KeyOrClose, st) = (if t = RBrace then close_object st else read_key t st)"
| "step t (Key, st) = read_key t st"
| "step t (AfterKey, st) = (if t = Colon then Some (Value, st) else None)"
| "step t (CommaOrClose, st) =
     (if t = Comma then
        (case st of
           InArray es # _ \<Rightarrow> Some (Value, st)
         | InObject ms None # _ \<Rightarrow> Some (Key, st)
         | _ \<Rightarrow> None)
      else if t = RBracket then close_array st
      else if t = RBrace then close_object st
      else None)"
| "step t (Finished v, st) = None"

fun run :: "token list \<Rightarrow> expect \<times> frame list \<Rightarrow> (expect \<times> frame list) option" where
  "run [] s = Some s"
| "run (t # ts) s = (case step t s of None \<Rightarrow> None | Some s' \<Rightarrow> run ts s')"

text \<open>
  \<^verbatim>\<open>JSON.parse(text)\<close>: the value, or \<open>None\<close> where JavaScript raises a SyntaxError.
\<close>

definition JSON_parse :: "string \<Rightarrow> json option" where
  "JSON_parse s =
     (case tokenize s of
        None \<Rightarrow> None
      | Some ts \<Rightarrow>
          (case run ts (Value, []) of
             Some (Finished v, []) \<Rightarrow> Some v
           | _ \<Rightarrow> None))"

subsection \<open>The two regular expressions\<close>

text \<open>
  A backtracking matcher: a piece of a pattern takes the rest of the pattern as a
  continuation and the text at the current position, tries its alternatives in the
  order of the regular-expression engine and yields the first one with which the rest
  of the pattern succeeds. A greedy quantifier tries the longest repetition first, a
  lazy one the shortest.
\<close>

fun first_success :: "('x \<Rightarrow> 'a option) \<Rightarrow> 'x list \<Rightarrow> 'a option" where
  "first_success f [] = None"
| "first_success f (x # xs) = (case f x of Some r \<Rightarrow> Some r | None \<Rightarrow> first_success f xs)"

definition lit :: "string \<Rightarrow> (string \<Rightarrow> 'a option) \<Rightarrow> string \<Rightarrow> 'a option" where
  "lit w k s = (if prefix w s then k (drop (length w) s) else None)"

definition optional :: "string \<Rightarrow> (string \<Rightarrow> 'a option) \<Rightarrow> string \<Rightarrow> 'a option" where
  "optional w k s = (case lit w k s of Some r \<Rightarrow> Some r | None \<Rightarrow> k s)"

definition greedy ::
  "(char \<Rightarrow> bool) \<Rightarrow> nat \<Rightarrow> (string \<Rightarrow> string \<Rightarrow> 'a option) \<Rightarrow> string \<Rightarrow> 'a option" where
  "greedy P least k s =
     first_success (\<lambda>n. k (take n s) (drop n s))
       (rev [least ..< Suc (length (takeWhile P s))])"

definition lazy_any :: "(string \<Rightarrow> string \<Rightarrow> 'a option) \<Rightarrow> string \<Rightarrow> 'a option" where
  "lazy_any k s = first_success (\<lambda>n. k (take n s) (drop n s)) [0 ..< Suc (length s)]"

text \<open>
  The first match of a pattern in a text: at the leftmost position where the pattern
  matches.
\<close>

fun first_match :: "(string \<Rightarrow> 'a option) \<Rightarrow> string \<Rightarrow> 'a option" where
  "first_match m [] = m []"
| "first_match m (c # cs) = (case m (c # cs) of Some r \<Rightarrow> Some r | None \<Rightarrow> first_match m cs)"

text \<open>
  The fence pattern of the response parser, written with a backquote \<open>`\<close> as
  \<^verbatim>\<open>/```(?:json)?\s*\n?([\s\S]*?)\n?\s*```/\<close>; the result is its capture group.
\<close>

definition fence :: string where
  "fence = replicate 3 (CHR 0x60)"

definition fence_at :: "string \<Rightarrow> string option" where
  "fence_at =
     lit fence
       (optional ''json''
         (greedy is_space 0 (\<lambda>_.
           optional ''\<newline>''
             (lazy_any (\<lambda>inner.
               optional ''\<newline>''
                 (greedy is_space 0 (\<lambda>_.
                   lit fence (\<lambda>_. Some inner))))))))"

definition fence_match :: "string \<Rightarrow> string option" where
  "fence_match content = first_match fence_at content"

text \<open>
  \<^verbatim>\<open>IMAGE_REGEX = /!\[([^\]]*)\]\(([^)]+)\)/g\<close>: the alternative text, the path and
  the text that remains after the match.
\<close>

definition image_at :: "string \<Rightarrow> (string \<times> string \<times> string) option" where
  "image_at =
     lit ''![''
       (greedy (\<lambda>c. c \<noteq> CHR '']'') 0 (\<lambda>al.
         lit ''](''
           (greedy (\<lambda>c. c \<noteq> CHR '')'') 1 (\<lambda>p.
             lit '')'' (\<lambda>rest. Some (al, p, rest))))))"

lemma first_success_Some:
  "first_success f xs = Some r \<Longrightarrow> \<exists>x \<in> set xs. f x = Some r"
  by (induction xs) (auto split: option.splits)

lemma lit_Some:
  "lit w k s = Some r \<Longrightarrow> \<exists>t. k t = Some r \<and> length t + length w = length s"
  by (auto simp: lit_def prefix_def split: if_splits)

lemma greedy_Some:
  "greedy P least k s = Some r \<Longrightarrow> \<exists>u t. k u t = Some r \<and> length t \<le> length s"
proof -
  assume "greedy P least k s = Some r"
  then obtain n where "k (take n s) (drop n s) = Some r"
    by (auto simp: greedy_def dest!: first_success_Some)
  moreover have "length (drop n s) \<le> length s" by simp
  ultimately show ?thesis by blast
qed

lemma image_at_shorter:
  assumes "image_at s = Some (al, p, rest)"
  shows "length rest < length s"
proof -
  let ?k3 = "\<lambda>rest. Some (al, p, rest)"
  from assms obtain t1 where
    t1: "greedy (\<lambda>c. c \<noteq> CHR '']'') 0 (\<lambda>al.
           lit ''](''
             (greedy (\<lambda>c. c \<noteq> CHR '')'') 1 (\<lambda>p.
               lit '')'' (\<lambda>rest. Some (al, p, rest))))) t1 = Some (al, p, rest)"
    and l1: "length t1 + length ''!['' = length s"
    unfolding image_at_def by (blast dest: lit_Some)
  from greedy_Some[OF t1] obtain a2 t2 where
    t2: "lit ''](''
           (greedy (\<lambda>c. c \<noteq> CHR '')'') 1 (\<lambda>p.
             lit '')'' (\<lambda>rest. Some (a2, p, rest)))) t2 = Some (al, p, rest)"
    and l2: "length t2 \<le> length t1"
    by blast
  from lit_Some[OF t2] obtain t3 where
    t3: "greedy (\<lambda>c. c \<noteq> CHR '')'') 1 (\<lambda>p.
             lit '')'' (\<lambda>rest. Some (a2, p, rest))) t3 = Some (al, p, rest)"
    and l3: "length t3 + length ''](''  = length t2"
    by blast
  from greedy_Some[OF t3] obtain p4 t4 where
    t4: "lit '')'' (\<lambda>rest. Some (a2, p4, rest)) t4 = Some (al, p, rest)"
    and l4: "length t4 \<le> length t3"
    by blast
  from lit_Some[OF t4] obtain t5 where
    t5: "Some (a2, p4, t5) = Some (al, p, rest)" and l5: "length t5 + length '')'' = length t4"
    by blast
  from t5 have "t5 = rest" by simp
  with l1 l2 l3 l4 l5 show ?thesis by simp
qed

text \<open>
  The successive matches of the global pattern in a text, as \<^verbatim>\<open>exec\<close> in a loop and
  \<^verbatim>\<open>replace\<close> find them: each search resumes where the previous match ended. The
  text is cut into the matches and the characters between them.
\<close>

datatype segment = Plain char | ImageRef string string

function scan_images :: "string \<Rightarrow> segment list" where
  "scan_images [] = []"
| "scan_images (c # cs) =
     (case image_at (c # cs) of
        Some (al, p, rest) \<Rightarrow> ImageRef al p # scan_images rest
      | None \<Rightarrow> Plain c # scan_images cs)"
  by pat_completeness auto
termination
  by (relation "measure length") (auto dest: image_at_shorter)

subsection \<open>The response parser\<close>

text \<open>
  Reading \<^verbatim>\<open>value["questions_answers"]\<close> from a parsed value. No prototype has a
  property of that name, so only an object's own member can hold it (the last one, when
  the text repeats the key); every other value gives \<^verbatim>\<open>undefined\<close> (\<open>None\<close>),
  and reading a property of \<^verbatim>\<open>null\<close> raises a TypeError.
\<close>

datatype parse_failure = SyntaxError | TypeError | NotFound

definition read_questions_answers :: "json \<Rightarrow> parse_failure + json option" where
  "read_questions_answers v =
     (case v of
        JNull \<Rightarrow> Inl TypeError
      | JObject members \<Rightarrow> Inr (map_of (rev members) (units ''questions_answers''))
      | _ \<Rightarrow> Inr None)"

text \<open>
  The truth value of a parsed value in a condition. A number is false when it is zero
  as a double: when its literal is zero, or too small for the smallest double (at most
  \<open>2\<^sup>-\<^sup>1\<^sup>0\<^sup>7\<^sup>5\<close>, which rounds to zero).
\<close>

definition number_is_zero :: "int \<Rightarrow> int \<Rightarrow> bool" where
  "number_is_zero m e = (m = 0 \<or> (e < 0 \<and> \<bar>m\<bar> * 2 ^ 1075 \<le> 10 ^ nat (- e)))"

definition truthy :: "json \<Rightarrow> bool" where
  "truthy v =
     (case v of
        JNull \<Rightarrow> False
      | JBool b \<Rightarrow> b
      | JNumber m e \<Rightarrow> \<not> number_is_zero m e
      | JString s \<Rightarrow> s \<noteq> []
      | JArray _ \<Rightarrow> True
      | JObject _ \<Rightarrow> True)"




text \<open>
  The body of the inner \<^verbatim>\<open>try\<close> for one choice, in both entrypoints. \<open>Inr v\<close>: the
  value \<open>v\<close> is pushed onto \<^verbatim>\<open>card_choices\<close>. \<open>Inl e\<close>: the body raised \<open>e\<close>, the
  \<^verbatim>\<open>catch\<close> logs a warning, and nothing is pushed. A SyntaxError of the first
  \<^verbatim>\<open>JSON.parse(content)\<close> leaves the body before the fence is looked for. After
  a successful first parse, a member that is \<^verbatim>\<open>null\<close> raises a TypeError when its
  \<^verbatim>\<open>length\<close> is read for the log.
\<close>

definition parse_choice :: "string \<Rightarrow> parse_failure + json" where
  "parse_choice content =
     (case JSON_parse content of
        None \<Rightarrow> Inl SyntaxError
      | Some parsedContent \<Rightarrow>
          (case read_questions_answers parsedContent of
             Inl e \<Rightarrow> Inl e
           | Inr None \<Rightarrow>
               (case fence_match content of
                  Some inner \<Rightarrow>
                    (case JSON_parse inner of
                       None \<Rightarrow> Inl SyntaxError
                     | Some jsonContent \<Rightarrow>
                         (case read_questions_answers jsonContent of
                            Inl e \<Rightarrow> Inl e
                          | Inr (Some qa) \<Rightarrow> if truthy qa then Inr qa else Inl NotFound
                          | Inr None \<Rightarrow> Inl NotFound))
                | None \<Rightarrow> Inl NotFound)
           | Inr (Some qa) \<Rightarrow> if qa = JNull then Inl TypeError else Inr qa))"

text \<open>
  \<^verbatim>\<open>response.choices.forEach\<close>: the choices in order, each pushing its value or
  nothing.
\<close>

definition push_choice :: "json list \<Rightarrow> string \<Rightarrow> json list" where
  "push_choice card_choices content =
     (case parse_choice content of
        Inr qa \<Rightarrow> card_choices @ [qa]
      | Inl _ \<Rightarrow> card_choices)"

definition collect_choices :: "string list \<Rightarrow> json list" where
  "collect_choices contents = foldl push_choice [] contents"

subsection \<open>Media helpers (\<^verbatim>\<open>image-utils.ts\<close>)\<close>

text \<open>
  \<^verbatim>\<open>getMimeType\<close> reads \<^verbatim>\<open>mimeTypes[extension.toLowerCase()]\<close> from an object
  literal. Such a read finds the literal's own properties and, for a key that is not
  one of them, the properties that every object inherits from \<^verbatim>\<open>Object.prototype\<close>.
  The value read is therefore a string of the table, an inherited member, or
  \<^verbatim>\<open>undefined\<close>; only the last is replaced by the default.
\<close>

datatype mime_value = MimeType string | ObjectMember string

definition mimeTypes :: "(string \<times> string) list" where
  "mimeTypes =
     [(''jpg'', ''image/jpeg''),
      (''jpeg'', ''image/jpeg''),
      (''png'', ''image/png''),
      (''gif'', ''image/gif''),
      (''bmp'', ''image/bmp''),
      (''webp'', ''image/webp''),
      (''pdf'', ''application/pdf'')]"

definition Object_prototype :: "string list" where
  "Object_prototype =
     [''constructor'', ''__defineGetter__'', ''__defineSetter__'', ''hasOwnProperty'',
      ''__lookupGetter__'', ''__lookupSetter__'', ''isPrototypeOf'',
      ''propertyIsEnumerable'', ''toString'', ''valueOf'', ''__proto__'',
      ''toLocaleString'']"

definition getMimeType :: "string \<Rightarrow> mime_value" where
  "getMimeType extension =
     (let key = toLowerCase extension
      in case map_of mimeTypes key of
           Some m \<Rightarrow> MimeType m
         | None \<Rightarrow>
             if key \<in> set Object_prototype then ObjectMember key
             else MimeType ''image/jpeg'')"

text \<open>
  The text that a template literal prints for the value: the string itself; for the
  inherited \<^verbatim>\<open>__proto__\<close> the prototype object, and for an inherited function its
  source text.
\<close>

definition mime_text :: "mime_value \<Rightarrow> string" where
  "mime_text m =
     (case m of
        MimeType s \<Rightarrow> s
      | ObjectMember k \<Rightarrow>
          if k = ''__proto__'' then ''[object Object]''
          else ''function '' @ (if k = ''constructor'' then ''Object'' else k)
               @ ''() { [native code] }'')"

record ImageInfo =
  path :: string
  base64 :: string
  mimeType :: mime_value
  alt :: "string option"

record MultimodalSettings =
  enabled :: bool
  visionModel :: string
  maxImageSize :: rat
  supportedFormats :: "string list"

definition extractImageReferences :: "string \<Rightarrow> (string \<times> string) list" where
  "extractImageReferences markdownText =
     concat (map (\<lambda>seg. case seg of ImageRef al p \<Rightarrow> [(al, p)] | Plain _ \<Rightarrow> [])
                 (scan_images markdownText))"

definition isSupportedImageFormat :: "string \<Rightarrow> string list \<Rightarrow> bool" where
  "isSupportedImageFormat p formats =
     (let extension = toLowerCase (split_pop CHR ''.'' p)
      in if extension \<noteq> [] then extension \<in> set formats else False)"

definition isSupportedMediaFormat :: "string \<Rightarrow> string list \<Rightarrow> bool" where
  "isSupportedMediaFormat p formats = isSupportedImageFormat p formats"

definition getAllSupportedExtensions :: "string list" where
  "getAllSupportedExtensions = [''jpg'', ''jpeg'', ''png'', ''gif'', ''bmp'', ''webp'', ''pdf'']"

definition bytesToKB :: "nat \<Rightarrow> rat" where
  "bytesToKB bytes = of_nat bytes / 1024"

text \<open>
  \<^verbatim>\<open>btoa(String.fromCharCode(...new Uint8Array(arrayBuffer)))\<close>: the base64 text of
  the bytes. A byte is a number below 256 (the model reduces it modulo 256). The limit
  that an engine puts on the number of arguments of one call is not modelled.
\<close>

type_synonym byte = nat

definition base64_alphabet :: string where
  "base64_alphabet = ''ABCDEFGHIJKLMNOPQRSTUVWXYZabcdefghijklmnopqrstuvwxyz0123456789+/''"

definition sextet :: "nat \<Rightarrow> char" where
  "sextet k = base64_alphabet ! (k mod 64)"

fun btoa :: "byte list \<Rightarrow> string" where
  "btoa [] = []"
| "btoa [b1] =
     (let v = (b1 mod 256) * 65536
      in [sextet (v div 262144), sextet (v div 4096), CHR ''='', CHR ''=''])"
| "btoa [b1, b2] =
     (let v = (b1 mod 256) * 65536 + (b2 mod 256) * 256
      in [sextet (v div 262144), sextet (v div 4096), sextet (v div 64), CHR ''=''])"
| "btoa (b1 # b2 # b3 # bs) =
     (let v = (b1 mod 256) * 65536 + (b2 mod 256) * 256 + b3 mod 256
      in [sextet (v div 262144), sextet (v div 4096), sextet (v div 64), sextet v] @ btoa bs)"

text \<open>
  The content store, as far as the helpers use it: the lookup of a path (a file, a
  folder or nothing), the list of all files, and the read of a file's bytes, which can
  fail (\<open>None\<close>: the promise rejects).
\<close>

record TFile =
  file_path :: string
  file_name :: string
  stat_size :: nat

datatype abstract_file = File TFile | Folder string

record Vault =
  getAbstractFileByPath :: "string \<Rightarrow> abstract_file option"
  getFiles :: "TFile list"
  readBinary :: "TFile \<Rightarrow> byte list option"

text \<open>
  The file of a reference and the path it is known by afterwards: the direct path
  first, then a file of that name, a file whose path ends with the reference, and a
  file named as the reference's last path component.
\<close>

definition find_image_file :: "Vault \<Rightarrow> string \<Rightarrow> (TFile \<times> string) option" where
  "find_image_file app imagePath =
     (case getAbstractFileByPath app imagePath of
        Some (File directFile) \<Rightarrow> Some (directFile, imagePath)
      | _ \<Rightarrow>
          (let allFiles = getFiles app;
               foundFile =
                 (case find (\<lambda>f. file_name f = imagePath) allFiles of
                    Some f \<Rightarrow> Some f
                  | None \<Rightarrow>
                      (case find (\<lambda>f. suffix imagePath (file_path f)) allFiles of
                         Some f \<Rightarrow> Some f
                       | None \<Rightarrow>
                           (let base = split_pop CHR ''/'' imagePath;
                                imageName = (if base \<noteq> [] then base else imagePath)
                            in find (\<lambda>f. file_name f = imageName) allFiles)))
           in case foundFile of
                Some f \<Rightarrow> Some (f, file_path f)
              | None \<Rightarrow> None))"

definition extension_or_jpeg :: "string \<Rightarrow> string" where
  "extension_or_jpeg p =
     (let e = toLowerCase (split_pop CHR ''.'' p) in if e \<noteq> [] then e else ''jpeg'')"

text \<open>
  One turn of the loop of \<^verbatim>\<open>processImages\<close>. The state is the list of processed
  images and the list of the files whose bytes were requested from the content store,
  in the order of the requests. Every \<^verbatim>\<open>continue\<close> and the \<^verbatim>\<open>catch\<close> of a failed
  read leave the images as they are.
\<close>

definition process_reference ::
  "Vault \<Rightarrow> MultimodalSettings \<Rightarrow> ImageInfo list \<times> TFile list \<Rightarrow> string \<times> string
     \<Rightarrow> ImageInfo list \<times> TFile list" where
  "process_reference app multimodalSettings state imageRef =
     (let (processedImages, reads) = state;
          (ref_alt, ref_path) = imageRef
      in if prefix ''http://'' ref_path \<or> prefix ''https://'' ref_path then state
         else if \<not> isSupportedImageFormat ref_path (supportedFormats multimodalSettings)
         then state
         else
           (case find_image_file app ref_path of
              None \<Rightarrow> state
            | Some (imageFile, imagePath) \<Rightarrow>
                if bytesToKB (stat_size imageFile) > maxImageSize multimodalSettings
                then state
                else
                  (case readBinary app imageFile of
                     None \<Rightarrow> (processedImages, reads @ [imageFile])
                   | Some bytes \<Rightarrow>
                       (processedImages @
                          [\<lparr>path = imagePath,
                            base64 = btoa bytes,
                            mimeType = getMimeType (extension_or_jpeg imagePath),
                            alt = Some ref_alt\<rparr>],
                        reads @ [imageFile]))))"

definition processImages ::
  "Vault \<Rightarrow> string \<Rightarrow> MultimodalSettings \<Rightarrow> ImageInfo list \<times> TFile list" where
  "processImages app markdownText multimodalSettings =
     (if \<not> enabled multimodalSettings then ([], [])
      else foldl (process_reference app multimodalSettings) ([], [])
             (extractImageReferences markdownText))"

definition processStandaloneFile ::
  "Vault \<Rightarrow> TFile \<Rightarrow> MultimodalSettings \<Rightarrow> ImageInfo option \<times> TFile list" where
  "processStandaloneFile app file multimodalSettings =
     (if \<not> enabled multimodalSettings then (None, [])
      else
        (let filePath = file_path file
         in if \<not> isSupportedMediaFormat filePath (supportedFormats multimodalSettings)
            then (None, [])
            else if bytesToKB (stat_size file) > maxImageSize multimodalSettings
            then (None, [])
            else
              (case readBinary app file of
                 None \<Rightarrow> (None, [file])
               | Some bytes \<Rightarrow>
                   (Some \<lparr>path = filePath,
                          base64 = btoa bytes,
                          mimeType = getMimeType (extension_or_jpeg filePath),
                          alt = Some (file_name file)\<rparr>,
                    [file]))))"

definition stripImageMarkdown :: "string \<Rightarrow> string" where
  "stripImageMarkdown markdownText =
     concat (map (\<lambda>seg. case seg of
                     Plain c \<Rightarrow> [c]
                   | ImageRef al p \<Rightarrow> if al \<noteq> [] then al else ''[Image: '' @ p @ '']'')
                 (scan_images markdownText))"

subsection \<open>The worked example of the prompt\<close>

record CardInformation =
  q :: string
  a :: string

definition SAMPLE_NOTE :: string where
  \<open>SAMPLE_NOTE =
     ''A numeral system is a writing system for expressing numbers. It is a mathematical notation '' @
     ''for representing numbers of a given set, using digits or other symbols in a consistent manner.\<newline>'' @
     ''\<newline>'' @
     ''Ideally, a numeral system will:\<newline>'' @
     ''- represent a useful set of numbers (eg: integers, rational numbers)\<newline>'' @
     ''- give every number represented a unique representation\<newline>'' @
     ''- reflect the algebraic and arithmetic structure of the numbers\<newline>'' @
     ''\<newline>'' @
     ''#### Positional Notation\<newline>'' @
     ''> also known as the "place-value notation"\<newline>'' @
     ''\<newline>'' @
     ''Uses a **radix**/**base** (eg: base 10) to indicate the number of unique *digits* that are '' @
     ''used to represent numbers in a position until the position of the digit is used to signify '' @
     ''a power of the *base* number.\<newline>'' @
     ''\<newline>'' @
     ''- Positional Systems with Base 2: [[Binary Numeral System]]\<newline>'' @
     ''- Positional Systems with Base 8: Octal Numeral System\<newline>'' @
     ''- Positional Systems with Base 10: Decimal Numeral System\<newline>'' @
     ''- Positional Systems with Base 12: Duodecimal (dozenal) Numeral System\<newline>'' @
     ''- Positional Systems with Base 16: Hexadecimal Numeral System\<newline>'' @
     ''- Positional Systems with Base 20: Vigesimal Numeral System\<newline>'' @
     ''- Positional Systems with Base 60: Sexagesimal Numeral System\<newline>''\<close>

definition SAMPLE_OUTPUT :: "CardInformation list" where
  \<open>SAMPLE_OUTPUT =
    [\<lparr>q = ''What is a numeral system?'',
      a = ''A numeral system is a writing system for expressing numbers, using digits or other symbols '' @
            ''in a consistent manner.''\<rparr>,
     \<lparr>q = ''What is the goal of a numeral system?'',
      a = ''The goal of a numeral system is to represent a useful set of numbers (eg: integers, rational '' @
            ''numbers), give every number represented a unique representation, and reflect the algebraic '' @
            ''and arithmetic structure of the numbers.''\<rparr>,
     \<lparr>q = ''What is a positional notation also known as?'',
      a = ''Place-value Notation''\<rparr>,
     \<lparr>q = ''What is a radix/base used for in the context of positional notation?'',
      a = ''To indicate the number of unique digits that are used to represent numbers in a position '' @
            ''until the position of the digit is used to signify a power of the base number''\<rparr>,
     \<lparr>q = ''What numeral system uses a base of 2?'',
      a = ''Binary Numeral System''\<rparr>,
     \<lparr>q = ''What numeral system uses a base of 8?'',
      a = ''Octal Numeral System''\<rparr>,
     \<lparr>q = ''What numeral system uses a base of 10?'',
      a = ''Decimal Numeral System''\<rparr>,
     \<lparr>q = ''What numeral system uses a base of 12?'',
      a = ''Duodecimal Numeral System''\<rparr>,
     \<lparr>q = ''What numeral system uses a base of 16?'',
      a = ''Hexadecimal Numeral System''\<rparr>,
     \<lparr>q = ''What numeral system uses a base of 20?'',
      a = ''Vigesimal Numeral System''\<rparr>,
     \<lparr>q = ''What numeral system uses a base of 60?'',
      a = ''Sexagesimal Numeral System''\<rparr>,
     \<lparr>q = ''What is binary number representation?'',
      a = ''Binary number representation is a number expressed in the base-2 numeral system or binary '' @
            ''numeral system.''\<rparr>]\<close>

text \<open>
  \<^verbatim>\<open>Array.prototype.slice(0, end)\<close> for an integral \<^verbatim>\<open>end\<close>: a negative end counts
  from the end of the array, and the result is clamped to the array.
\<close>

definition slice0 :: "'a list \<Rightarrow> int \<Rightarrow> 'a list" where
  "slice0 xs e =
     (let n = int (length xs);
          k = (if e < 0 then max (n + e) 0 else min e n)
      in take (nat k) xs)"

lemma SAMPLE_OUTPUT_length: "length SAMPLE_OUTPUT = 12"
  by (simp add: SAMPLE_OUTPUT_def)

text \<open>
  The loop of \<^verbatim>\<open>generateRepeatedSampleOutput\<close>:
  \<^verbatim>\<open>while (count < num) { output.push(...SAMPLE_OUTPUT); count += SAMPLE_OUTPUT.length; }\<close>
\<close>

function repeat_loop :: "int \<Rightarrow> int \<Rightarrow> CardInformation list \<Rightarrow> CardInformation list" where
  "repeat_loop num count output =
     (if count < num
      then repeat_loop num (count + int (length SAMPLE_OUTPUT)) (output @ SAMPLE_OUTPUT)
      else output)"
  by pat_completeness auto
termination
  by (relation "measure (\<lambda>(num, count, output). nat (num - count))")
     (auto simp: SAMPLE_OUTPUT_length)

declare repeat_loop.simps [simp del]

definition generateRepeatedSampleOutput :: "int \<Rightarrow> CardInformation list" where
  "generateRepeatedSampleOutput num =
     (if num < int (length SAMPLE_OUTPUT) then slice0 SAMPLE_OUTPUT num
      else slice0 (repeat_loop num 0 []) num)"

subsection \<open>The prompt builder\<close>

datatype role = system | user | assistant

text \<open>
  The content of a message: a plain string, or an array of segments
  \<^verbatim>\<open>{type: 'text', text}\<close> and \<^verbatim>\<open>{type: 'image_url', image_url: {url}}\<close>.
\<close>

datatype content_part = text_part string | image_url_part string

datatype message_content = text_content string | parts_content "content_part list"

record message =
  role :: role
  content :: message_content

text \<open>
  \<^verbatim>\<open>JSON.stringify({"questions_answers": cards})\<close> for a list of cards: the members
  in the order of insertion, without white space, the strings quoted as JSON does.
\<close>

definition hex_digit :: "nat \<Rightarrow> char" where
  "hex_digit d = ''0123456789abcdef'' ! d"

definition quote_char :: "char \<Rightarrow> string" where
  "quote_char c =
     (if c = CHR 0x22 then [backslash, CHR 0x22]
      else if c = backslash then [backslash, backslash]
      else if c = CHR 0x08 then [backslash, CHR ''b'']
      else if c = CHR 0x0C then [backslash, CHR ''f'']
      else if c = CHR 0x0A then [backslash, CHR ''n'']
      else if c = CHR 0x0D then [backslash, CHR ''r'']
      else if c = CHR 0x09 then [backslash, CHR ''t'']
      else if (of_char c :: nat) < 32
      then [backslash] @ ''u00'' @ [hex_digit (of_char c div 16), hex_digit (of_char c mod 16)]
      else [c])"

definition QuoteJSONString :: "string \<Rightarrow> string" where
  "QuoteJSONString s = [CHR 0x22] @ concat (map quote_char s) @ [CHR 0x22]"

fun join :: "string \<Rightarrow> string list \<Rightarrow> string" where
  "join sep [] = []"
| "join sep [x] = x"
| "join sep (x # y # ys) = x @ sep @ join sep (y # ys)"

definition stringify_card :: "CardInformation \<Rightarrow> string" where
  \<open>stringify_card c =
     ''{"q":'' @ QuoteJSONString (q c) @ '',"a":'' @ QuoteJSONString (a c) @ ''}''\<close>

definition stringify_questions_answers :: "CardInformation list \<Rightarrow> string" where
  \<open>stringify_questions_answers cards =
     ''{"questions_answers":['' @ join '','' (map stringify_card cards) @ '']}''\<close>

definition multimodal_instructions :: "int \<Rightarrow> string" where
  \<open>multimodal_instructions num =
     ''You will be provided notes on a specific topic along with images. The notes are formatted '' @
     ''in markdown. Based on the given notes and images, make a list of '' @
     Number_toString num @
     '' questions and short answers that can be used for reviewing said notes by spaced repetition. '' @
     ''Use the following guidelines:\<newline>'' @
     ''        - output the questions and answers in the following JSON format { "questions_answers": '' @
     ''[{ "q": "<generated question>", "a": "<generated answer>" }] }\<newline>'' @
     ''        - ensure that the questions cover the entire portion of the given notes and images, '' @
     ''do not come up with similar questions or repeat the same questions\<newline>'' @
     ''        - when referencing images in questions or answers, describe the relevant visual '' @
     ''content clearly\<newline>'' @
     ''        - create questions that test understanding of both textual and visual information '' @
     ''where applicable''\<close>

definition text_instructions :: "int \<Rightarrow> string" where
  \<open>text_instructions num =
     ''You will be provided notes on a specific topic. The notes are formatted in markdown. Based '' @
     ''on the given notes, make a list of '' @
     Number_toString num @
     '' questions and short answers that can be used for reviewing said notes by spaced repetition. '' @
     ''Use the following guidelines:\<newline>'' @
     ''        - output the questions and answers in the following JSON format { "questions_answers": '' @
     ''[{ "q": "<generated question>", "a": "<generated answer>" }] }\<newline>'' @
     ''        - ensure that the questions cover the entire portion of the given notes, do not '' @
     ''come up with similar questions or repeat the same questions''\<close>

definition standalone_instructions :: "int \<Rightarrow> string" where
  \<open>standalone_instructions num =
     ''You are a helpful assistant designed to generate comprehensive flashcard questions and answers '' @
     ''from visual content (images, PDFs, etc.). \<newline>'' @
     ''\<newline>'' @
     ''Your task is to:\<newline>'' @
     ''1. Analyze the provided file content carefully\<newline>'' @
     ''2. Generate '' @
     Number_toString num @
     '' high-quality questions that test understanding of the visual content\<newline>'' @
     ''3. Provide clear, accurate answers\<newline>'' @
     ''4. Focus on key concepts, details, and information visible in the file\<newline>'' @
     ''5. Make questions specific to what can be observed in the content\<newline>'' @
     ''\<newline>'' @
     ''Format your response as a JSON object with this exact structure:\<newline>'' @
     ''{\<newline>'' @
     ''    "questions_answers": [\<newline>'' @
     ''        {"q": "Your question here", "a": "Your answer here"}\<newline>'' @
     ''    ]\<newline>'' @
     ''}\<newline>'' @
     ''\<newline>'' @
     ''Important guidelines:\<newline>'' @
     ''- Questions should be clear and specific to the visual content\<newline>'' @
     ''- Answers should be comprehensive but concise\<newline>'' @
     ''- Focus on educational value\<newline>'' @
     ''- Ensure questions test different aspects of the content (if applicable)\<newline>'' @
     ''- For images: focus on visible elements, diagrams, text, concepts shown\<newline>'' @
     ''- For PDFs: focus on key information, structure, main points\<newline>''\<close>

text \<open>
  The embedded-data URI of a media item:
  \<^verbatim>\<open>`data:${image.mimeType};base64,${image.base64}`\<close>.
\<close>

definition data_url :: "ImageInfo \<Rightarrow> string" where
  "data_url img = ''data:'' @ mime_text (mimeType img) @ '';base64,'' @ base64 img"

text \<open>
  \<^verbatim>\<open>createMessages(notes, num, images?)\<close>. The messages are pushed one after the
  other; with images, the content array of the last message starts as the text segment
  and \<^verbatim>\<open>images.forEach\<close> pushes one segment per image.
\<close>

definition has_images :: "ImageInfo list option \<Rightarrow> bool" where
  "has_images images = (case images of Some ims \<Rightarrow> 0 < length ims | None \<Rightarrow> False)"

definition createMessages :: "string \<Rightarrow> int \<Rightarrow> ImageInfo list option \<Rightarrow> message list" where
  "createMessages notes num images =
     (let messages0 = [];
          systemContent =
            (if has_images images then multimodal_instructions num else text_instructions num);
          messages1 = messages0 @ [\<lparr>role = system, content = text_content systemContent\<rparr>];
          messages2 = messages1 @ [\<lparr>role = user, content = text_content SAMPLE_NOTE\<rparr>];
          messages3 = messages2 @
            [\<lparr>role = assistant,
              content = text_content
                (stringify_questions_answers (generateRepeatedSampleOutput num))\<rparr>]
      in if has_images images then
           (let content0 = [text_part (''\<newline>'' @ trim notes @ ''\<newline>'')];
                content1 = foldl (\<lambda>c img. c @ [image_url_part (data_url img)])
                             content0 (the images)
            in messages3 @ [\<lparr>role = user, content = parts_content content1\<rparr>])
         else
           messages3 @
             [\<lparr>role = user,
               content = text_content (''\<newline>'' @ trim notes @ ''\<newline>'')\<rparr>])"

text \<open>
  \<^verbatim>\<open>createMessagesForStandaloneFile(fileInfo, num_q)\<close>. The sample output has
  \<^verbatim>\<open>num = 1\<close> entry; the text segment names the file by
  \<^verbatim>\<open>fileInfo.alt || fileInfo.path\<close>.
\<close>

definition alt_or_path :: "ImageInfo \<Rightarrow> string" where
  "alt_or_path fileInfo =
     (case alt fileInfo of
        Some al \<Rightarrow> if al \<noteq> [] then al else path fileInfo
      | None \<Rightarrow> path fileInfo)"

definition createMessagesForStandaloneFile :: "ImageInfo \<Rightarrow> int \<Rightarrow> message list" where
  "createMessagesForStandaloneFile fileInfo num_q =
     (let messages0 = [];
          num = 1;
          messages1 = messages0 @
            [\<lparr>role = system, content = text_content (standalone_instructions num_q)\<rparr>];
          messages2 = messages1 @
            [\<lparr>role = assistant,
              content = text_content
                (stringify_questions_answers (generateRepeatedSampleOutput num))\<rparr>];
          content0 =
            [text_part
               (''Please analyze this file and generate '' @ Number_toString num_q @
                '' educational flashcard questions and answers based on its content: '' @
                alt_or_path fileInfo),
             image_url_part (data_url fileInfo)]
      in messages2 @ [\<lparr>role = user, content = parts_content content0\<rparr>])"

subsection \<open>The provider and the two entrypoints\<close>

datatype AIProvider = openai | ollama | other_provider string

text \<open>
  The options of a generation request. \<^verbatim>\<open>GptAdvancedOptions\<close> extends
  \<^verbatim>\<open>Partial<ChatCompletionCreateParamsBase>\<close>: beside its five own keys the object can
  hold any other parameter of a completion request. Both entrypoints take
  \<^verbatim>\<open>max_tokens_per_question\<close> out and spread all the rest into the request. Of the
  rest, the keys \<^verbatim>\<open>n\<close> (\<open>options_n\<close>) and \<^verbatim>\<open>response_format\<close>
  (\<open>options_response_format\<close>) are kept apart here, \<open>None\<close> when absent, because the
  entrypoints differ in whether they write over them; \<open>options_other_keys\<close> are all the
  further keys that no entrypoint writes over. (A key \<^verbatim>\<open>model\<close>, \<^verbatim>\<open>messages\<close>,
  \<^verbatim>\<open>max_tokens\<close> or \<^verbatim>\<open>stream\<close> of the options is written over by both entrypoints
  and never reaches a request.)
\<close>

record completion_options =
  temperature :: rat
  top_p :: rat
  frequency_penalty :: rat
  presence_penalty :: rat
  options_n :: "int option"
  options_response_format :: "string option"
  options_other_keys :: "(string \<times> json) list"

record GptAdvancedOptions = completion_options +
  max_tokens_per_question :: int

record OpenAI_client =
  client_baseURL :: "string option"
  client_apiKey :: string

text \<open>
  The parameters of a completion request. \<open>completionOptions\<close> are the options spread
  into the request (all but \<^verbatim>\<open>max_tokens_per_question\<close>). \<open>n_completions\<close> is the
  value of the key \<^verbatim>\<open>n\<close> of the finished request and \<open>response_format\<close> the type of
  its \<^verbatim>\<open>response_format\<close>, each \<open>None\<close> when the request has no such key: the value
  that an entrypoint writes, and otherwise the one that the spread brought along.
\<close>

record ChatCompletionCreateParams =
  completionOptions :: completion_options
  model :: string
  messages :: "message list"
  max_tokens :: int
  n_completions :: "int option"
  stream :: bool
  response_format :: "string option"

text \<open>
  A completion: the content of each choice's message (\<open>None\<close> for \<^verbatim>\<open>null\<close>). A
  failed submission: no response at all, or an error response with its status.
\<close>

record ChatCompletion =
  choices :: "string option list"

datatype api_failure = no_response string | error_response int string

datatype thrown = Error string | ApiFailure api_failure

type_synonym provider_api =
  "OpenAI_client \<Rightarrow> ChatCompletionCreateParams \<Rightarrow> api_failure + ChatCompletion"

definition base_url_v1 :: "string option \<Rightarrow> string" where
  "base_url_v1 baseUrl =
     (case baseUrl of Some b \<Rightarrow> b | None \<Rightarrow> ''undefined'') @ ''/v1''"

definition model_or_default :: "string option \<Rightarrow> string" where
  "model_or_default model_opt =
     (case model_opt of
        Some m \<Rightarrow> if m \<noteq> [] then m else ''llama3.2''
      | None \<Rightarrow> ''llama3.2'')"

text \<open>
  The first \<^verbatim>\<open>try\<close> block of \<^verbatim>\<open>convertNotesToFlashcards\<close> up to the call of the
  provider: the client and the parameters of the request, or what the block raised.
\<close>

definition notes_request ::
  "Vault \<Rightarrow> AIProvider \<Rightarrow> string \<Rightarrow> string \<Rightarrow> int \<Rightarrow> int \<Rightarrow> GptAdvancedOptions
     \<Rightarrow> string option \<Rightarrow> string option \<Rightarrow> MultimodalSettings option
     \<Rightarrow> thrown + OpenAI_client \<times> ChatCompletionCreateParams" where
  "notes_request app provider apiKey notes num_q num options baseUrl model_opt multimodalSettings =
     (let processedImages =
            (case multimodalSettings of
               Some mm \<Rightarrow> if enabled mm then fst (processImages app notes mm) else []
             | None \<Rightarrow> []);
          processedNotes =
            (if 0 < length processedImages then stripImageMarkdown notes else notes);
          completionParams = (\<lambda>modelToUse.
            \<lparr>completionOptions = completion_options.truncate options,
             model = modelToUse,
             messages = createMessages processedNotes num_q
               (if 0 < length processedImages then Some processedImages else None),
             max_tokens = max_tokens_per_question options * num_q,
             n_completions = Some num,
             stream = False,
             response_format =
               (if provider = openai \<and> length processedImages = 0
                then Some ''json_object'' else options_response_format options)\<rparr>)
      in case provider of
           openai \<Rightarrow>
             Inr (\<lparr>client_baseURL = None, client_apiKey = apiKey\<rparr>,
                  completionParams
                    (if 0 < length processedImages then ''gpt-4-vision-preview''
                     else ''gpt-3.5-turbo-1106''))
         | ollama \<Rightarrow>
             Inr (\<lparr>client_baseURL = Some (base_url_v1 baseUrl), client_apiKey = ''ollama''\<rparr>,
                  completionParams
                    (case multimodalSettings of
                       Some mm \<Rightarrow>
                         if 0 < length processedImages \<and> enabled mm then visionModel mm
                         else model_or_default model_opt
                     | None \<Rightarrow> model_or_default model_opt))
         | other_provider p \<Rightarrow> Inl (Error (''Unsupported AI provider: '' @ p)))"

text \<open>
  \<^verbatim>\<open>convertNotesToFlashcards\<close>: whatever the first block raises, and every failure of
  the provider, ends in \<^verbatim>\<open>return []\<close>. The second block has nothing to catch here:
  a completion has its list of choices, and what parsing a choice raises is caught inside
  the loop.
\<close>

definition convertNotesToFlashcards ::
  "provider_api \<Rightarrow> Vault \<Rightarrow> AIProvider \<Rightarrow> string \<Rightarrow> string \<Rightarrow> int \<Rightarrow> int
     \<Rightarrow> GptAdvancedOptions \<Rightarrow> string option \<Rightarrow> string option \<Rightarrow> MultimodalSettings option
     \<Rightarrow> thrown + json list" where
  "convertNotesToFlashcards create app provider apiKey notes num_q num options baseUrl
       model_opt multimodalSettings =
     (case notes_request app provider apiKey notes num_q num options baseUrl model_opt
             multimodalSettings of
        Inl err \<Rightarrow> Inr []
      | Inr (client, completionParams) \<Rightarrow>
          (case create client completionParams of
             Inl err \<Rightarrow> Inr []
           | Inr response \<Rightarrow>
               Inr (collect_choices
                      (map (\<lambda>c. case c of Some t \<Rightarrow> t | None \<Rightarrow> [])
                           (choices response)))))"

text \<open>
  The first \<^verbatim>\<open>try\<close> block of \<^verbatim>\<open>convertStandaloneFileToFlashcards\<close> up to the
  call of the provider.
\<close>

definition standalone_request ::
  "Vault \<Rightarrow> AIProvider \<Rightarrow> string \<Rightarrow> TFile \<Rightarrow> int \<Rightarrow> int \<Rightarrow> GptAdvancedOptions
     \<Rightarrow> string option \<Rightarrow> string option \<Rightarrow> MultimodalSettings option
     \<Rightarrow> thrown + OpenAI_client \<times> ChatCompletionCreateParams" where
  "standalone_request app provider apiKey file num_q num options baseUrl model_opt
       multimodalSettings =
     (case multimodalSettings of
        None \<Rightarrow> Inl (Error ''Multimodal support is not enabled'')
      | Some mm \<Rightarrow>
          if \<not> enabled mm then Inl (Error ''Multimodal support is not enabled'')
          else
            (case fst (processStandaloneFile app file mm) of
               None \<Rightarrow> Inl (Error (''Failed to process file: '' @ file_path file))
             | Some processedFile \<Rightarrow>
                 (let completionParams = (\<lambda>modelToUse.
                        \<lparr>completionOptions = completion_options.truncate options,
                         model = modelToUse,
                         messages = createMessagesForStandaloneFile processedFile num_q,
                         max_tokens = max_tokens_per_question options * num_q * num,
                         n_completions = options_n options,
                         stream = False,
                         response_format = options_response_format options\<rparr>)
                  in case provider of
                       openai \<Rightarrow>
                         Inr (\<lparr>client_baseURL = None, client_apiKey = apiKey\<rparr>,
                              completionParams ''gpt-4-vision-preview'')
                     | ollama \<Rightarrow>
                         Inr (\<lparr>client_baseURL = Some (base_url_v1 baseUrl),
                               client_apiKey = ''ollama''\<rparr>,
                              completionParams
                                (if visionModel mm \<noteq> [] then visionModel mm
                                 else ''llama3.2-vision:11b''))
                     | other_provider p \<Rightarrow>
                         Inl (Error (''Unsupported AI provider: '' @ p)))))"

text \<open>
  \<^verbatim>\<open>convertStandaloneFileToFlashcards\<close>: the \<^verbatim>\<open>catch\<close> of the first block logs
  the error and raises it again (\<^verbatim>\<open>throw error\<close>).
\<close>

definition convertStandaloneFileToFlashcards ::
  "provider_api \<Rightarrow> Vault \<Rightarrow> AIProvider \<Rightarrow> string \<Rightarrow> TFile \<Rightarrow> int \<Rightarrow> int
     \<Rightarrow> GptAdvancedOptions \<Rightarrow> string option \<Rightarrow> string option \<Rightarrow> MultimodalSettings option
     \<Rightarrow> thrown + json list" where
  "convertStandaloneFileToFlashcards create app provider apiKey file num_q num options baseUrl
       model_opt multimodalSettings =
     (case standalone_request app provider apiKey file num_q num options baseUrl model_opt
             multimodalSettings of
        Inl err \<Rightarrow> Inl err
      | Inr (client, completionParams) \<Rightarrow>
          (case create client completionParams of
             Inl err \<Rightarrow> Inl (ApiFailure err)
           | Inr response \<Rightarrow>
               Inr (collect_choices
                      (map (\<lambda>c. case c of Some t \<Rightarrow> trim t | None \<Rightarrow> [])
                           (choices response)))))"

subsection \<open>Example inputs\<close>

text \<open>
  A content store with one image of three bytes (it answers every read with these
  bytes), a file with the extension \<^verbatim>\<open>constructor\<close>, multimodal settings whose vision
  model is the empty string, the default sampling options, a provider that fails every
  request and one that answers every request with the given choices; a well-formed
  answer bare and in a fence, an answer in prose, an answer whose
  \<^verbatim>\<open>questions_answers\<close> is a number and an answer without that key.
\<close>

definition example_file :: TFile where
  "example_file = \<lparr>file_path = ''img/a.png'', file_name = ''a.png'', stat_size = 3\<rparr>"

definition example_vault :: Vault where
  "example_vault =
     \<lparr>getAbstractFileByPath =
        (\<lambda>p. if p = ''img/a.png'' then Some (File example_file) else None),
      getFiles = [example_file],
      readBinary = (\<lambda>f. Some [0x4D, 0x61, 0x6E])\<rparr>"

definition constructor_file :: TFile where
  "constructor_file =
     \<lparr>file_path = ''x.constructor'', file_name = ''x.constructor'', stat_size = 3\<rparr>"

definition example_settings :: MultimodalSettings where
  "example_settings =
     \<lparr>enabled = True, visionModel = [], maxImageSize = 5000,
      supportedFormats = [''jpg'', ''jpeg'', ''png'', ''gif'', ''bmp'', ''webp'']\<rparr>"

definition example_options :: GptAdvancedOptions where
  "example_options =
     \<lparr>temperature = 1, top_p = 1, frequency_penalty = 0, presence_penalty = 0,
      options_n = None, options_response_format = None, options_other_keys = [],
      max_tokens_per_question = 100\<rparr>"

definition example_image :: ImageInfo where
  "example_image =
     \<lparr>path = ''img/a.png'', base64 = ''TWFu'', mimeType = MimeType ''image/png'',
      alt = Some ''fig''\<rparr>"

definition failing_provider :: provider_api where
  "failing_provider client params = Inl (no_response ''Connection error.'')"


definition unfenced_answer :: string where
  \<open>unfenced_answer = ''{"questions_answers":[{"q":"X","a":"Y"}]}''\<close>

definition fenced_answer :: string where
  "fenced_answer = fence @ ''json\<newline>'' @ unfenced_answer @ ''\<newline>'' @ fence"




definition one_card :: json where
  "one_card =
     JArray [JObject [(units ''q'', JString (units ''X'')), (units ''a'', JString (units ''Y''))]]"

text \<open>The parameters of a prepared request, when the block has not raised.\<close>

definition requested ::
  "thrown + OpenAI_client \<times> ChatCompletionCreateParams \<Rightarrow> ChatCompletionCreateParams option" where
  "requested r = (case r of Inr (client, params) \<Rightarrow> Some params | Inl _ \<Rightarrow> None)"


section \<open>Properties\<close>

subsection \<open>The worked example has the requested size\<close>

lemma repeat_loop_cyclic:
  "count = int (length outp) \<Longrightarrow> 12 dvd length outp \<Longrightarrow>
   (\<forall>i < length outp. outp ! i = SAMPLE_OUTPUT ! (i mod 12)) \<Longrightarrow>
   num \<le> int (length (repeat_loop num count outp)) \<and>
   (\<forall>i < length (repeat_loop num count outp).
      repeat_loop num count outp ! i = SAMPLE_OUTPUT ! (i mod 12))"
proof (induction num count outp rule: repeat_loop.induct)
  case (1 num count outp)
  show ?case
  proof (cases "count < num")
    case False
    with "1.prems" show ?thesis by (subst (1 2 3) repeat_loop.simps) simp
  next
    case True
    have len: "count + int (length SAMPLE_OUTPUT) = int (length (outp @ SAMPLE_OUTPUT))"
      using "1.prems"(1) by simp
    have dvd: "12 dvd length (outp @ SAMPLE_OUTPUT)"
      using "1.prems"(2) by (simp add: SAMPLE_OUTPUT_length)
    have cyc: "\<forall>i < length (outp @ SAMPLE_OUTPUT). (outp @ SAMPLE_OUTPUT) ! i = SAMPLE_OUTPUT ! (i mod 12)"
    proof (intro allI impI)
      fix i assume i: "i < length (outp @ SAMPLE_OUTPUT)"
      show "(outp @ SAMPLE_OUTPUT) ! i = SAMPLE_OUTPUT ! (i mod 12)"
      proof (cases "i < length outp")
        case True
        then show ?thesis using "1.prems"(3) by (simp add: nth_append)
      next
        case False
        then have ge: "length outp \<le> i" by simp
        from "1.prems"(2) obtain k where k: "length outp = 12 * k" by (auto simp: dvd_def)
        have lt: "i - length outp < 12" using i ge by (simp add: SAMPLE_OUTPUT_length)
        have "i mod 12 = (i - length outp) mod 12"
          using ge k by (metis le_add_diff_inverse mod_mult_self4 add.commute)
        also have "\<dots> = i - length outp" using lt by simp
        finally show ?thesis using False by (simp add: nth_append)
      qed
    qed
    from "1.IH"[OF True len dvd cyc] True show ?thesis
      by (subst (1 2 3) repeat_loop.simps) simp
  qed
qed

text \<open>
  Claim C5. For every requested count \<open>num \<ge> 1\<close> the example output of
  \<^verbatim>\<open>generateRepeatedSampleOutput\<close> has exactly \<open>num\<close> entries, and entry \<open>i\<close> is
  entry \<open>i mod 12\<close> of the canonical list: the list is repeated cyclically and cut
  to length. For \<open>num < 12\<close> the output is the first \<open>num\<close> canonical entries, and for
  \<open>num = 15\<close> it is the canonical list followed by its first three entries.
\<close>

theorem generateRepeatedSampleOutput_cyclic:
  "1 \<le> num \<Longrightarrow>
     length (generateRepeatedSampleOutput num) = nat num \<and>
     (\<forall>i < nat num. generateRepeatedSampleOutput num ! i = SAMPLE_OUTPUT ! (i mod length SAMPLE_OUTPUT)) \<and>
     (num < 12 \<longrightarrow> generateRepeatedSampleOutput num = take (nat num) SAMPLE_OUTPUT) \<and>
     generateRepeatedSampleOutput 15 = SAMPLE_OUTPUT @ take 3 SAMPLE_OUTPUT"
proof -
  assume n: "1 \<le> num"
  let ?g = "generateRepeatedSampleOutput num"
  have small: "?g = take (nat num) SAMPLE_OUTPUT" if "num < 12"
    using that n by (simp add: generateRepeatedSampleOutput_def slice0_def SAMPLE_OUTPUT_length min_def)
  have big: "length ?g = nat num \<and> (\<forall>i < nat num. ?g ! i = SAMPLE_OUTPUT ! (i mod 12))" if ge: "12 \<le> num"
  proof -
    from repeat_loop_cyclic[of 0 "[]" num]
    have L: "num \<le> int (length (repeat_loop num 0 []))"
      and C: "\<forall>i < length (repeat_loop num 0 []). repeat_loop num 0 [] ! i = SAMPLE_OUTPUT ! (i mod 12)"
      by simp_all
    have g: "?g = take (nat num) (repeat_loop num 0 [])"
      using ge L by (simp add: generateRepeatedSampleOutput_def slice0_def SAMPLE_OUTPUT_length min_def)
    have "nat num \<le> length (repeat_loop num 0 [])" using L by linarith
    then show ?thesis using C by (simp add: g)
  qed
  have s2: "length ?g = nat num \<and> (\<forall>i < nat num. ?g ! i = SAMPLE_OUTPUT ! (i mod 12))" if lt: "num < 12"
    using small[OF lt] lt n by (simp add: SAMPLE_OUTPUT_length min_def)
  have f15: "generateRepeatedSampleOutput 15 = SAMPLE_OUTPUT @ take 3 SAMPLE_OUTPUT"
    by (simp add: generateRepeatedSampleOutput_def slice0_def SAMPLE_OUTPUT_length
        repeat_loop.simps[of 15 0] repeat_loop.simps[of 15 12] repeat_loop.simps[of 15 24])
  show ?thesis using big s2 small f15 by (cases "num < 12") (simp_all add: SAMPLE_OUTPUT_length)
qed

theorem generateRepeatedSampleOutput_cyclic_witness:
  "(1::int) \<le> 15 \<and>
   length (generateRepeatedSampleOutput 15) = 15 \<and>
   take 12 (generateRepeatedSampleOutput 15) = SAMPLE_OUTPUT \<and>
   drop 12 (generateRepeatedSampleOutput 15) = take 3 SAMPLE_OUTPUT \<and>
   generateRepeatedSampleOutput 5 = take 5 SAMPLE_OUTPUT"
  using generateRepeatedSampleOutput_cyclic [of 15] generateRepeatedSampleOutput_cyclic [of 5]
  by (simp add: SAMPLE_OUTPUT_length)

subsection \<open>The example inputs, evaluated\<close>

lemma example_standalone_file:
  "fst (processStandaloneFile example_vault example_file example_settings) = Some (example_image\<lparr>alt := Some ''a.png''\<rparr>)"
  by code_simp

lemma example_note_images:
  "fst (processImages example_vault ''see ![fig](a.png)'' example_settings) = [example_image]"
  by code_simp

lemma example_plain_note_images:
  "fst (processImages example_vault ''A note.'' example_settings) = []"
  by code_simp

lemma example_settings_fields:
  "enabled example_settings" "visionModel example_settings = []"
  by (simp_all add: example_settings_def)

subsection \<open>Parsing the choices\<close>

lemma fence_chars: "fence = [CHR 0x60, CHR 0x60, CHR 0x60]"
  by code_simp

lemma JSON_parse_backquote: "JSON_parse (CHR 0x60 # s) = None"
  by (simp add: JSON_parse_def tokenize.simps json_space_def is_digit_def)

text \<open>
  Claim C1 says that a choice whose direct parse fails is searched for a fenced code
  block, so that an answer wrapped in a \<^verbatim>\<open>json\<close> fence parses to the same card list as
  the bare answer. In the code the search for the fence stands inside the \<^verbatim>\<open>try\<close>
  after \<^verbatim>\<open>JSON.parse(content)\<close> has succeeded: the fenced answer is not JSON, the
  first parse raises a SyntaxError, and the choice is dropped, although the fence pattern
  would find the bare answer in it. The bare answer parses to its one card. The same
  holds for every content that begins with a fence.
\<close>

theorem fenced_choice_is_dropped:
  "parse_choice fenced_answer = Inl SyntaxError \<and>
   parse_choice unfenced_answer = Inr one_card \<and>
   fence_match fenced_answer = Some unfenced_answer \<and>
   collect_choices [fenced_answer] = [] \<and>
   collect_choices [unfenced_answer] = [one_card] \<and>
   parse_choice (fence @ rest) = Inl SyntaxError"
proof -
  have a: "parse_choice fenced_answer = Inl SyntaxError \<and>
   parse_choice unfenced_answer = Inr one_card \<and>
   fence_match fenced_answer = Some unfenced_answer \<and>
   collect_choices [fenced_answer] = [] \<and>
   collect_choices [unfenced_answer] = [one_card]"
    by code_simp
  have b: "parse_choice (fence @ rest) = Inl SyntaxError"
    by (simp add: parse_choice_def fence_chars JSON_parse_backquote)
  show ?thesis using a b by blast
qed

















subsection \<open>The media helpers\<close>

text \<open>
  Claim C8 says that every extension outside the table maps to \<^verbatim>\<open>image/jpeg\<close>. The
  seven extensions of the table map to their types in any letter case, and an unknown
  extension such as \<^verbatim>\<open>tiff\<close> maps to the default; but for the extensions
  \<^verbatim>\<open>constructor\<close> and \<^verbatim>\<open>__proto__\<close> the lookup finds a member inherited from
  \<^verbatim>\<open>Object.prototype\<close>, which is not \<^verbatim>\<open>undefined\<close>, and \<^verbatim>\<open>getMimeType\<close>
  returns that member instead of a MIME type. Such an extension reaches the function when
  the configured list of supported formats holds it; the URL of the media item then
  carries the text of the function in the place of the MIME type.
\<close>

theorem getMimeType_inherited_member:
  "getMimeType ''constructor'' = ObjectMember ''constructor'' \<and>
   getMimeType ''__proto__'' = ObjectMember ''__proto__'' \<and>
   getMimeType ''constructor'' \<noteq> MimeType ''image/jpeg'' \<and>
   map getMimeType [''jpg'', ''jpeg'', ''png'', ''gif'', ''bmp'', ''webp'', ''pdf'', ''JPG'', ''Png''] =
     map MimeType [''image/jpeg'', ''image/jpeg'', ''image/png'', ''image/gif'', ''image/bmp'',
                   ''image/webp'', ''application/pdf'', ''image/jpeg'', ''image/png''] \<and>
   getMimeType ''tiff'' = MimeType ''image/jpeg'' \<and>
   map_option data_url
     (fst (processStandaloneFile example_vault constructor_file
        (example_settings\<lparr>supportedFormats := [''png'', ''constructor'']\<rparr>)))
     = Some ''data:function Object() { [native code] };base64,TWFu''"
  by code_simp


text \<open>
  Claim C10. With the \<^verbatim>\<open>enabled\<close> flag off, \<^verbatim>\<open>processImages\<close> returns the empty
  list for every text and \<^verbatim>\<open>processStandaloneFile\<close> returns \<^verbatim>\<open>null\<close> for every
  file, and neither requests the bytes of any file from the content store.
\<close>

theorem media_disabled_reads_nothing:
  "\<not> enabled multimodalSettings \<Longrightarrow>
     processImages app markdownText multimodalSettings = ([], []) \<and>
     processStandaloneFile app file multimodalSettings = (None, [])"
  by (simp add: processImages_def processStandaloneFile_def)

theorem media_disabled_reads_nothing_witness:
  "\<not> enabled (example_settings\<lparr>enabled := False\<rparr>) \<and>
   processImages example_vault ''see ![fig](a.png)'' (example_settings\<lparr>enabled := False\<rparr>) = ([], []) \<and>
   processStandaloneFile example_vault example_file (example_settings\<lparr>enabled := False\<rparr>) = (None, []) \<and>
   snd (processImages example_vault ''see ![fig](a.png)'' example_settings) = [example_file] \<and>
   snd (processStandaloneFile example_vault example_file example_settings) = [example_file]"
proof -
  have off: "\<not> enabled (example_settings\<lparr>enabled := False\<rparr>)" by simp
  have on1: "snd (processImages example_vault ''see ![fig](a.png)'' example_settings) = [example_file]"
    by code_simp
  have on2: "snd (processStandaloneFile example_vault example_file example_settings) = [example_file]"
    by code_simp
  from media_disabled_reads_nothing[OF off] off on1 on2 show ?thesis by blast
qed

subsection \<open>The messages of a prompt\<close>

lemma foldl_push_segments:
  "foldl (\<lambda>c img. c @ [f img]) acc ims = acc @ map f ims"
  by (induction ims arbitrary: acc) simp_all

lemma createMessages_last:
  "last (createMessages notes num images) =
     (if has_images images
      then \<lparr>role = user,
            content = parts_content
              (text_part (''\<newline>'' @ trim notes @ ''\<newline>'') #
               map (\<lambda>img. image_url_part (data_url img)) (the images))\<rparr>
      else \<lparr>role = user, content = text_content (''\<newline>'' @ trim notes @ ''\<newline>'')\<rparr>)"
  by (simp add: createMessages_def Let_def foldl_push_segments)

text \<open>
  Claim C6. With at least one resolved media item, the content of the final user message
  is an array: one text segment first, then one media segment per item in the order of
  the items, each with the URL \<^verbatim>\<open>data:<mimeType>;base64,<encodedContent>\<close>. With no
  media item (none passed, or an empty list) the content is a plain string. The request
  of a standalone file always carries its one media item in the same array form.
\<close>

theorem user_content_segments:
  "(images = Some ims \<and> ims \<noteq> [] \<longrightarrow>
      role (last (createMessages notes num images)) = user \<and>
      content (last (createMessages notes num images)) =
        parts_content
          (text_part (''\<newline>'' @ trim notes @ ''\<newline>'') #
           map (\<lambda>img. image_url_part
                  (''data:'' @ mime_text (mimeType img) @ '';base64,'' @ base64 img)) ims)) \<and>
   (images = None \<or> images = Some [] \<longrightarrow>
      role (last (createMessages notes num images)) = user \<and>
      content (last (createMessages notes num images)) =
        text_content (''\<newline>'' @ trim notes @ ''\<newline>'')) \<and>
   content (last (createMessagesForStandaloneFile fileInfo num_q)) =
     parts_content
       [text_part
          (''Please analyze this file and generate '' @ Number_toString num_q @
           '' educational flashcard questions and answers based on its content: '' @
           alt_or_path fileInfo),
        image_url_part
          (''data:'' @ mime_text (mimeType fileInfo) @ '';base64,'' @ base64 fileInfo)]"
  by (auto simp: createMessages_last has_images_def data_url_def
        createMessagesForStandaloneFile_def Let_def)

theorem user_content_segments_witness:
  "content (last (createMessages ''  Cells divide.  '' 2
      (Some [example_image, example_image\<lparr>base64 := ''AA=='', mimeType := MimeType ''image/gif''\<rparr>]))) =
     parts_content
       [text_part ''\<newline>Cells divide.\<newline>'',
        image_url_part ''data:image/png;base64,TWFu'',
        image_url_part ''data:image/gif;base64,AA==''] \<and>
   content (last (createMessages ''  Cells divide.  '' 2 None)) =
     text_content ''\<newline>Cells divide.\<newline>'' \<and>
   content (last (createMessages ''  Cells divide.  '' 2 (Some []))) =
     text_content ''\<newline>Cells divide.\<newline>''"
proof -
  have t: "trim ''  Cells divide.  '' = ''Cells divide.''" by code_simp
  have m: "mime_text (MimeType ''image/png'') = ''image/png''"
          "mime_text (MimeType ''image/gif'') = ''image/gif''"
    by (simp_all add: mime_text_def)
  show ?thesis
    using user_content_segments[of "Some [example_image, example_image\<lparr>base64 := ''AA=='', mimeType := MimeType ''image/gif''\<rparr>]"
            "[example_image, example_image\<lparr>base64 := ''AA=='', mimeType := MimeType ''image/gif''\<rparr>]" "''  Cells divide.  ''" 2]
          user_content_segments[of None "[]" "''  Cells divide.  ''" 2]
          user_content_segments[of "Some []" "[]" "''  Cells divide.  ''" 2]
    by (simp add: t m example_image_def)
qed

text \<open>
  Claim C4 says that every prompt, in the note flow and in the standalone-file flow, is
  one system message, a sample user message, a sample assistant message and the real
  user message. The prompt of a standalone file has three messages and no sample user
  message.
\<close>

theorem standalone_has_no_sample_user_message:
  "map role (createMessagesForStandaloneFile example_image 5) \<noteq> [system, user, assistant, user]"
  by (simp add: createMessagesForStandaloneFile_def Let_def)

text \<open>
  Claim C4, amended. The messages of the note flow are, in this order, the system message,
  the sample note as a user message, the sample output as an assistant message and the
  real user message. The messages of the standalone-file flow are the system message, the
  sample output (of one entry) as an assistant message and the real user message.
\<close>

theorem message_order:
  "map role (createMessages notes num images) = [system, user, assistant, user] \<and>
   content (createMessages notes num images ! 1) = text_content SAMPLE_NOTE \<and>
   content (createMessages notes num images ! 2) =
     text_content (stringify_questions_answers (generateRepeatedSampleOutput num)) \<and>
   map role (createMessagesForStandaloneFile fileInfo num_q) = [system, assistant, user] \<and>
   content (createMessagesForStandaloneFile fileInfo num_q ! 1) =
     text_content (stringify_questions_answers (generateRepeatedSampleOutput 1))"
  by (simp add: createMessages_def createMessagesForStandaloneFile_def Let_def)

subsection \<open>The requests of the two entrypoints\<close>

text \<open>
  Claim C9 says that \<^verbatim>\<open>max_tokens\<close> is \<^verbatim>\<open>max_tokens_per_question\<close> times the
  question count in both entrypoints. The standalone-file entrypoint multiplies by the
  sample count as well: 100 tokens per question, 5 questions and 2 samples give 1000.
\<close>

theorem standalone_max_tokens_counterexample:
  "map_option max_tokens
     (requested (standalone_request example_vault ollama [] example_file 5 2 example_options
        (Some ''http://localhost:11434'') (Some ''llama3.2'') (Some example_settings)))
     \<noteq> Some (max_tokens_per_question example_options * 5)"
  by (simp add: standalone_request_def Let_def example_standalone_file requested_def
        example_settings_fields example_options_def)

text \<open>
  Claim C9, amended. The request that \<^verbatim>\<open>convertNotesToFlashcards\<close> prepares has
  \<^verbatim>\<open>max_tokens = max_tokens_per_question * num_q\<close>; the request that
  \<^verbatim>\<open>convertStandaloneFileToFlashcards\<close> prepares has
  \<^verbatim>\<open>max_tokens = max_tokens_per_question * num_q * num\<close>.
\<close>

theorem max_tokens_of_requests:
  "(notes_request app provider apiKey notes num_q num options baseUrl model_opt multimodalSettings
      = Inr (client, params) \<longrightarrow>
    max_tokens params = max_tokens_per_question options * num_q) \<and>
   (standalone_request app provider apiKey file num_q num options baseUrl model_opt multimodalSettings
      = Inr (client', params') \<longrightarrow>
    max_tokens params' = max_tokens_per_question options * num_q * num)"
  by (auto simp: notes_request_def standalone_request_def Let_def
           split: AIProvider.splits option.splits if_splits)

theorem max_tokens_of_requests_witness:
  "map_option max_tokens
     (requested (notes_request example_vault ollama [] ''A note.'' 5 2 example_options
        (Some ''http://localhost:11434'') (Some ''llama3.2'') (Some example_settings)))
     = Some (100 * 5) \<and>
   map_option max_tokens
     (requested (standalone_request example_vault ollama [] example_file 5 2 example_options
        (Some ''http://localhost:11434'') (Some ''llama3.2'') (Some example_settings)))
     = Some (100 * 5 * 2)"
proof -
  let ?n = "notes_request example_vault ollama [] ''A note.'' 5 2 example_options
        (Some ''http://localhost:11434'') (Some ''llama3.2'') (Some example_settings)"
  let ?s = "standalone_request example_vault ollama [] example_file 5 2 example_options
        (Some ''http://localhost:11434'') (Some ''llama3.2'') (Some example_settings)"
  obtain c p where n: "?n = Inr (c, p)"
    by (simp add: notes_request_def Let_def example_plain_note_images example_settings_fields)
  obtain c' p' where s: "?s = Inr (c', p')"
    by (simp add: standalone_request_def Let_def example_standalone_file example_settings_fields)
  have m: "max_tokens_per_question example_options = 100" by (simp add: example_options_def)
  from max_tokens_of_requests[of example_vault ollama "[]" "''A note.''" 5 2 example_options
         "Some ''http://localhost:11434''" "Some ''llama3.2''" "Some example_settings" c p
         example_file c' p'] n s m
  show ?thesis by (simp add: requested_def)
qed

text \<open>
  Claim C2 says that both entrypoints return an empty collection when the submission
  fails. \<^verbatim>\<open>convertStandaloneFileToFlashcards\<close> does not return: its \<^verbatim>\<open>catch\<close> logs
  the error and raises it again.
\<close>

theorem standalone_raises_on_submission_failure:
  "convertStandaloneFileToFlashcards failing_provider example_vault ollama [] example_file 5 2
     example_options (Some ''http://localhost:11434'') (Some ''llama3.2'') (Some example_settings)
     \<noteq> Inr []"
  by (simp add: convertStandaloneFileToFlashcards_def standalone_request_def Let_def
        example_standalone_file example_settings_fields failing_provider_def)

text \<open>
  Claim C2, amended. When the provider fails the request (with no response or with an
  error response), and also when preparing the request raises,
  \<^verbatim>\<open>convertNotesToFlashcards\<close> returns the empty list; when the provider fails the
  request of \<^verbatim>\<open>convertStandaloneFileToFlashcards\<close>, that entrypoint raises the
  provider's error to its caller.
\<close>

theorem submission_failure_outcomes:
  "(notes_request app provider apiKey notes num_q num options baseUrl model_opt multimodalSettings
      = Inl err \<longrightarrow>
    convertNotesToFlashcards create app provider apiKey notes num_q num options baseUrl model_opt
      multimodalSettings = Inr []) \<and>
   (notes_request app provider apiKey notes num_q num options baseUrl model_opt multimodalSettings
      = Inr (client, params) \<and> create client params = Inl failure \<longrightarrow>
    convertNotesToFlashcards create app provider apiKey notes num_q num options baseUrl model_opt
      multimodalSettings = Inr []) \<and>
   (standalone_request app provider apiKey file num_q num options baseUrl model_opt
      multimodalSettings = Inr (client', params') \<and> create client' params' = Inl failure' \<longrightarrow>
    convertStandaloneFileToFlashcards create app provider apiKey file num_q num options baseUrl
      model_opt multimodalSettings = Inl (ApiFailure failure'))"
  by (simp add: convertNotesToFlashcards_def convertStandaloneFileToFlashcards_def)

theorem submission_failure_outcomes_witness:
  "convertNotesToFlashcards failing_provider example_vault ollama [] ''A note.'' 5 2
     example_options (Some ''http://localhost:11434'') (Some ''llama3.2'') (Some example_settings)
     = Inr [] \<and>
   convertNotesToFlashcards failing_provider example_vault (other_provider ''gemini'') []
     ''A note.'' 5 2 example_options None None None = Inr [] \<and>
   convertStandaloneFileToFlashcards failing_provider example_vault ollama [] example_file 5 2
     example_options (Some ''http://localhost:11434'') (Some ''llama3.2'') (Some example_settings)
     = Inl (ApiFailure (no_response ''Connection error.''))"
proof -
  let ?n = "notes_request example_vault ollama [] ''A note.'' 5 2 example_options
        (Some ''http://localhost:11434'') (Some ''llama3.2'') (Some example_settings)"
  let ?s = "standalone_request example_vault ollama [] example_file 5 2 example_options
        (Some ''http://localhost:11434'') (Some ''llama3.2'') (Some example_settings)"
  obtain c p where n: "?n = Inr (c, p)"
    by (simp add: notes_request_def Let_def example_plain_note_images example_settings_fields)
  obtain c' p' where s: "?s = Inr (c', p')"
    by (simp add: standalone_request_def Let_def example_standalone_file example_settings_fields)
  have f: "failing_provider c p = Inl (no_response ''Connection error.'')"
          "failing_provider c' p' = Inl (no_response ''Connection error.'')"
    by (simp_all add: failing_provider_def)
  have u: "notes_request example_vault (other_provider ''gemini'') [] ''A note.'' 5 2
             example_options None None None = Inl (Error (''Unsupported AI provider: '' @ ''gemini''))"
    by (simp add: notes_request_def Let_def)
  from submission_failure_outcomes[of example_vault ollama "[]" "''A note.''" 5 2 example_options
         "Some ''http://localhost:11434''" "Some ''llama3.2''" "Some example_settings" _
         failing_provider c p "no_response ''Connection error.''" example_file c' p'
         "no_response ''Connection error.''"] n s f
  have a: "convertNotesToFlashcards failing_provider example_vault ollama [] ''A note.'' 5 2
     example_options (Some ''http://localhost:11434'') (Some ''llama3.2'') (Some example_settings)
     = Inr []"
    and b: "convertStandaloneFileToFlashcards failing_provider example_vault ollama [] example_file 5 2
     example_options (Some ''http://localhost:11434'') (Some ''llama3.2'') (Some example_settings)
     = Inl (ApiFailure (no_response ''Connection error.''))"
    by simp_all
  from submission_failure_outcomes[of example_vault "other_provider ''gemini''" "[]" "''A note.''"
         5 2 example_options None None None "Error (''Unsupported AI provider: '' @ ''gemini'')"
         failing_provider] u
  have c: "convertNotesToFlashcards failing_provider example_vault (other_provider ''gemini'') []
     ''A note.'' 5 2 example_options None None None = Inr []"
    by simp
  show ?thesis using a b c by simp
qed

text \<open>
  Claim C3 says that for the provider \<^verbatim>\<open>ollama\<close> a request with media and no
  configured vision model falls back to \<^verbatim>\<open>llama3.2-vision:11b\<close> in both entrypoints.
  With one resolved image and the empty string as the configured vision model,
  \<^verbatim>\<open>convertNotesToFlashcards\<close> requests the model named by the empty string; only
  \<^verbatim>\<open>convertStandaloneFileToFlashcards\<close> has the fallback. Without media the note
  entrypoint selects the configured model \<^verbatim>\<open>llama3.2\<close>.
\<close>

theorem ollama_vision_model_without_fallback:
  "map_option model
     (requested (notes_request example_vault ollama [] ''see ![fig](a.png)'' 5 1 example_options
        (Some ''http://localhost:11434'') (Some ''llama3.2'') (Some example_settings)))
     = Some [] \<and>
   map_option model
     (requested (notes_request example_vault ollama [] ''A note.'' 5 1 example_options
        (Some ''http://localhost:11434'') (Some ''llama3.2'') (Some example_settings)))
     = Some ''llama3.2'' \<and>
   map_option model
     (requested (standalone_request example_vault ollama [] example_file 5 1 example_options
        (Some ''http://localhost:11434'') (Some ''llama3.2'') (Some example_settings)))
     = Some ''llama3.2-vision:11b''"
  by (simp add: notes_request_def standalone_request_def Let_def requested_def
        example_note_images example_plain_note_images example_standalone_file
        example_settings_fields model_or_default_def)


end
